theory Spec2Isabelle
  imports Main "HOL-Library.List_Lexorder" "HOL-Library.Sublist"
begin

section \<open>Python strings\<close>

text \<open>
  A Python \<open>str\<close> is a sequence of Unicode code points: the type \<open>pystr\<close> is the list
  of the code points, and \<open>str\<close> writes an ASCII literal as such a list.  Python compares
  two strings code point by code point, which is the lexicographic order on these lists.
  Tag names and attribute names, which the program only compares with ASCII constants, stay
  HOL strings.
\<close>

type_synonym pystr = "int list"

definition str :: "string \<Rightarrow> pystr" where
  "str s = map of_char s"

definition nl :: pystr where
  "nl = [10]"

text \<open>
  \<open>str.strip()\<close> removes from both ends the characters for which \<open>str.isspace\<close> holds:
  U+0009 to U+000D, U+001C to U+0020, U+0085, U+00A0, U+1680, U+2000 to U+200A, U+2028,
  U+2029, U+202F, U+205F and U+3000.
\<close>

definition is_space :: "int \<Rightarrow> bool" where
  "is_space c =
     (c \<in> set [0x09, 0x0A, 0x0B, 0x0C, 0x0D, 0x1C, 0x1D, 0x1E, 0x1F, 0x20, 0x85, 0xA0,
               0x1680, 0x2000, 0x2001, 0x2002, 0x2003, 0x2004, 0x2005, 0x2006, 0x2007,
               0x2008, 0x2009, 0x200A, 0x2028, 0x2029, 0x202F, 0x205F, 0x3000])"

definition lstrip :: "pystr \<Rightarrow> pystr" where
  "lstrip s = dropWhile is_space s"

definition rstrip :: "pystr \<Rightarrow> pystr" where
  "rstrip s = rev (dropWhile is_space (rev s))"

definition strip :: "pystr \<Rightarrow> pystr" where
  "strip s = rstrip (lstrip s)"

text \<open>
  \<open>str.upper()\<close> replaces every character by its full upper-case mapping, one character
  at a time; a mapping can be longer than one character.  On ASCII the mapping sends
  \<open>a-z\<close> to \<open>A-Z\<close> and leaves the rest.  Beyond ASCII it is a table of the Unicode
  database, which is not part of the program: the parameter \<open>T\<close>, a function from a code
  point to the text that replaces it.
\<close>

definition upper_char :: "(int \<Rightarrow> pystr) \<Rightarrow> int \<Rightarrow> pystr" where
  "upper_char T c =
     (if 97 \<le> c \<and> c \<le> 122 then [c - 32]
      else if 0 \<le> c \<and> c < 128 then [c]
      else T c)"

definition upper :: "(int \<Rightarrow> pystr) \<Rightarrow> pystr \<Rightarrow> pystr" where
  "upper T s = concat (map (upper_char T) s)"

fun join :: "'a list \<Rightarrow> 'a list list \<Rightarrow> 'a list" where
  "join sep [] = []"
| "join sep [x] = x"
| "join sep (x # y # ys) = x @ sep @ join sep (y # ys)"

fun startswith :: "'a list \<Rightarrow> 'a list \<Rightarrow> bool" where
  "startswith s [] = True"
| "startswith [] (p # ps) = False"
| "startswith (c # cs) (p # ps) = (c = p \<and> startswith cs ps)"

fun contains :: "'a list \<Rightarrow> 'a list \<Rightarrow> bool" where
  "contains [] p = (p = [])"
| "contains (c # cs) p = (startswith (c # cs) p \<or> contains cs p)"

section \<open>The parsed document\<close>

text \<open>
  The tree \<open>BeautifulSoup(response.text, "html.parser")\<close> builds: a text node
  (\<open>NavigableString\<close>), a string node of another kind (comment, doctype, ...), which
  \<open>get_text\<close> skips, or a tag with its name, its attribute dictionary (as the list of
  its items) and its children in order.  A document is the list of the soup's children.
\<close>

datatype node =
    Text pystr
  | Comment pystr
  | Elem string "(string \<times> pystr) list" "node list"

fun name :: "node \<Rightarrow> string option" where
  "name (Elem t as cs) = Some t"
| "name (Text s) = None"
| "name (Comment s) = None"

fun descendants :: "node \<Rightarrow> node list" where
  "descendants (Elem t as cs) = concat (map (\<lambda>c. c # descendants c) cs)"
| "descendants (Text s) = []"
| "descendants (Comment s) = []"

definition doc_descendants :: "node list \<Rightarrow> node list" where
  "doc_descendants d = concat (map (\<lambda>c. c # descendants c) d)"

fun node_text :: "node \<Rightarrow> pystr list" where
  "node_text (Text s) = [s]"
| "node_text (Comment s) = []"
| "node_text (Elem t as cs) = []"

text \<open>\<open>get_text(strip=True)\<close>: the text nodes below the tag, each stripped, the empty ones
  dropped, the rest joined with the empty separator.\<close>

definition get_text_strip :: "node \<Rightarrow> pystr" where
  "get_text_strip e =
     concat (filter (\<lambda>s. s \<noteq> []) (map strip (concat (map node_text (descendants e)))))"

section \<open>Noise filter\<close>

text \<open>
  \<open>for tag in soup([...]): tag.decompose()\<close>: every tag whose name is in the list is
  taken out of the tree together with everything below it, wherever it stands.
\<close>

definition unwanted_tags :: "string list" where
  "unwanted_tags = [''script'', ''style'', ''header'', ''footer'', ''nav'', ''form'',
                    ''noscript'', ''svg'', ''aside'', ''dialog'', ''iframe'']"

fun unwanted :: "node \<Rightarrow> bool" where
  "unwanted (Elem t as cs) = (t \<in> set unwanted_tags)"
| "unwanted (Text s) = False"
| "unwanted (Comment s) = False"

fun decompose_unwanted :: "node list \<Rightarrow> node list"
  and decompose_in :: "node \<Rightarrow> node" where
  "decompose_unwanted [] = []"
| "decompose_unwanted (n # ns) =
     (if unwanted n then decompose_unwanted ns else decompose_in n # decompose_unwanted ns)"
| "decompose_in (Elem t as cs) = Elem t as (decompose_unwanted cs)"
| "decompose_in (Text s) = Text s"
| "decompose_in (Comment s) = Comment s"

section \<open>Social link collector\<close>

definition social_domains :: "pystr list" where
  "social_domains = map str [''facebook.com'', ''twitter.com'', ''linkedin.com'',
                             ''instagram.com'', ''youtube.com'', ''t.me'', ''wa.me'']"

text \<open>
  \<open>soup.find_all("a", href=True)\<close>: the \<open>a\<close> tags that have an \<open>href\<close>, in document
  order; each is represented by the value of that attribute, the only thing the code reads.
\<close>

fun anchor_href :: "node \<Rightarrow> pystr option" where
  "anchor_href (Elem t as cs) = (if t = ''a'' then map_of as ''href'' else None)"
| "anchor_href (Text s) = None"
| "anchor_href (Comment s) = None"

definition anchor_hrefs :: "node list \<Rightarrow> pystr list" where
  "anchor_hrefs d = List.map_filter anchor_href (doc_descendants d)"

definition is_social :: "pystr \<Rightarrow> bool" where
  "is_social href = list_ex (\<lambda>domain. contains href domain) social_domains"

definition social_links :: "node list \<Rightarrow> pystr set" where
  "social_links d = set (map strip (filter is_social (anchor_hrefs d)))"

section \<open>Heading-grouped content walker\<close>

definition heading_tags :: "string list" where
  "heading_tags = [''h1'', ''h2'', ''h3'', ''h4'', ''h5'', ''h6'']"

definition container_tags :: "string list" where
  "container_tags = [''p'', ''li'', ''div'', ''span'']"

fun is_heading :: "node \<Rightarrow> bool" where
  "is_heading (Elem t as cs) = (t \<in> set heading_tags)"
| "is_heading (Text s) = False"
| "is_heading (Comment s) = False"

fun is_container :: "node \<Rightarrow> bool" where
  "is_container (Elem t as cs) = (t \<in> set container_tags)"
| "is_container (Text s) = False"
| "is_container (Comment s) = False"

text \<open>The three variables the loop updates: \<open>content_blocks\<close>, \<open>current_heading\<close>, \<open>block\<close>.\<close>

record walker =
  content_blocks :: "pystr list"
  current_heading :: "node option"
  block :: "pystr list"

definition format_block :: "(int \<Rightarrow> pystr) \<Rightarrow> node \<Rightarrow> pystr list \<Rightarrow> pystr" where
  "format_block T h b =
     str ''=== '' @ upper T (get_text_strip h) @ str '' ==='' @ nl @ strip (join (str '' '') b)"

definition visit :: "(int \<Rightarrow> pystr) \<Rightarrow> walker \<Rightarrow> node \<Rightarrow> walker" where
  "visit T w element =
     (if is_heading element then
        \<lparr>content_blocks =
           (case current_heading w of
              Some h \<Rightarrow> if block w \<noteq> [] then content_blocks w @ [format_block T h (block w)]
                        else content_blocks w
            | None \<Rightarrow> content_blocks w),
         current_heading = Some element,
         block = []\<rparr>
      else if is_container element then
        (let text = get_text_strip element
         in if text \<noteq> [] then w\<lparr>block := block w @ [text]\<rparr> else w)
      else w)"

definition walk_init :: walker where
  "walk_init = \<lparr>content_blocks = [], current_heading = None, block = []\<rparr>"

definition walk :: "(int \<Rightarrow> pystr) \<Rightarrow> node list \<Rightarrow> walker" where
  "walk T ds = foldl (visit T) walk_init ds"

text \<open>The two statements after the loop.\<close>

definition finish :: "(int \<Rightarrow> pystr) \<Rightarrow> walker \<Rightarrow> pystr list" where
  "finish T w =
     (case current_heading w of
        Some h \<Rightarrow> if block w \<noteq> [] then content_blocks w @ [format_block T h (block w)]
                  else content_blocks w
      | None \<Rightarrow> if block w \<noteq> [] then content_blocks w @ [strip (join nl (block w))]
                else content_blocks w)"

section \<open>The structured document\<close>

datatype error =
    RequestException pystr
  | OtherException pystr

text \<open>\<open>soup.body\<close>: the first tag named \<open>body\<close> in the document, \<open>None\<close> when there is none.\<close>

definition body :: "node list \<Rightarrow> node option" where
  "body d = find (\<lambda>n. name n = Some ''body'') (doc_descendants d)"

definition links_block :: "pystr set \<Rightarrow> pystr list" where
  "links_block links =
     (if links \<noteq> {} then
        [str ''=== SOCIAL MEDIA LINKS ==='' @ nl @ join nl (sorted_list_of_set links)]
      else [])"

text \<open>The message of the \<open>AttributeError\<close> that \<open>soup.body.descendants\<close> raises when
  \<open>soup.body\<close> is \<open>None\<close>.\<close>

definition no_body_message :: pystr where
  "no_body_message = [0x27] @ str ''NoneType'' @ [0x27] @ str '' object has no attribute ''
     @ [0x27] @ str ''descendants'' @ [0x27]"

text \<open>Lines 77 to 113 of \<open>extract_visible_text\<close>, from the parsed soup to \<open>visible_text\<close>.\<close>

definition structured_document :: "(int \<Rightarrow> pystr) \<Rightarrow> node list \<Rightarrow> error + pystr" where
  "structured_document T soup =
     (let d = decompose_unwanted soup;
          links = social_links d
      in case body d of
           None \<Rightarrow> Inl (OtherException no_body_message)
         | Some b \<Rightarrow>
             Inr (join (nl @ nl)
                    (filter (\<lambda>s. s \<noteq> [])
                       (finish T (walk T (descendants b)) @ links_block links))))"

section \<open>The collaborators and the module namespace\<close>

text \<open>
  What the program calls and does not define: the HTTP fetch (\<open>requests.get\<close> followed by
  \<open>raise_for_status\<close>), the HTML parser, the process environment, the tokenizer, the
  chat-completion endpoint and the upper-case table of the Unicode database.  Each is a
  function of the world; where the call can raise, the function returns the exception as
  a value.
\<close>

datatype exn =
    NameError pystr
  | KeyError pystr
  | Raised pystr

datatype pyval =
    Str pystr
  | NoneVal
  | Object

record world =
  fetch :: "pystr \<Rightarrow> error + pystr"
  parse :: "pystr \<Rightarrow> error + node list"
  getenv :: "string \<Rightarrow> pystr option"
  encoding_for_model :: "pyval \<Rightarrow> exn + nat"
  get_encoding :: "pystr \<Rightarrow> exn + nat"
  encode :: "nat \<Rightarrow> pystr \<Rightarrow> nat list"
  decode :: "nat \<Rightarrow> nat list \<Rightarrow> pystr"
  chat :: "pyval \<Rightarrow> pystr \<Rightarrow> exn + pystr"
  upper_table :: "int \<Rightarrow> pystr"

definition env_value :: "world \<Rightarrow> string \<Rightarrow> pyval" where
  "env_value W k = (case getenv W k of None \<Rightarrow> NoneVal | Some v \<Rightarrow> Str v)"

text \<open>Every name bound at module level in \<open>app.py\<close>, in the order of the file, with the
  string values the configuration reads.\<close>

definition module_globals :: "world \<Rightarrow> (string \<times> pyval) list" where
  "module_globals W =
     [(''st'', Object), (''requests'', Object), (''BeautifulSoup'', Object),
      (''urlparse'', Object), (''CosmosClient'', Object), (''PartitionKey'', Object),
      (''AzureOpenAI'', Object), (''uuid'', Object), (''pd'', Object), (''json'', Object),
      (''os'', Object), (''tiktoken'', Object), (''BytesIO'', Object),
      (''COSMOS_ENDPOINT'', env_value W ''COSMOS_ENDPOINT''),
      (''COSMOS_KEY'', env_value W ''COSMOS_KEY''),
      (''COSMOS_DB_NAME'', env_value W ''COSMOS_DB_NAME''),
      (''COSMOS_CONTAINER_NAME'', env_value W ''COSMOS_CONTAINER_NAME''),
      (''COSMOS_PARTITION_KEY'', env_value W ''COSMOS_PARTITION_KEY''),
      (''AZURE_OPENAI_ENDPOINT'', env_value W ''AZURE_OPENAI_ENDPOINT''),
      (''AZURE_OPENAI_KEY'', env_value W ''AZURE_OPENAI_KEY''),
      (''AZURE_OPENAI_EMBEDDING_DEPLOYMENT'', env_value W ''AZURE_OPENAI_EMBEDDING_DEPLOYMENT''),
      (''AZURE_OPENAI_CHAT_DEPLOYMENT'', env_value W ''AZURE_OPENAI_CHAT_DEPLOYMENT''),
      (''OPENAI_API_VERSION'', Str (str ''2024-03-01-preview'')),
      (''cosmos_client'', Object), (''database'', Object), (''container'', Object),
      (''openai_client'', Object), (''session_id'', Object), (''chat_history'', Object),
      (''system_message'', Object), (''extract_visible_text'', Object),
      (''clean_and_structure_text'', Object), (''save_to_cosmos'', Object),
      (''create_download_buttons'', Object), (''user_input'', Object),
      (''response'', Object), (''raw'', Object)]"

definition name_error_message :: "string \<Rightarrow> pystr" where
  "name_error_message n = str ''name '' @ [0x27] @ str n @ [0x27] @ str '' is not defined''"

definition load_global :: "world \<Rightarrow> string \<Rightarrow> exn + pyval" where
  "load_global W n =
     (case map_of (module_globals W) n of
        None \<Rightarrow> Inl (NameError (name_error_message n))
      | Some v \<Rightarrow> Inr v)"

section \<open>\<open>extract_visible_text\<close>\<close>

text \<open>The body of the \<open>try\<close>: an exception raised on the way is the \<open>Inl\<close> result.\<close>

definition scrape :: "world \<Rightarrow> pystr \<Rightarrow> error + pystr" where
  "scrape W url =
     (case fetch W url of
        Inl e \<Rightarrow> Inl e
      | Inr html \<Rightarrow>
          (case parse W html of
             Inl e \<Rightarrow> Inl e
           | Inr soup \<Rightarrow> structured_document (upper_table W) soup))"

text \<open>The two \<open>except\<close> clauses.\<close>

definition extract_visible_text :: "world \<Rightarrow> pystr \<Rightarrow> pystr" where
  "extract_visible_text W url =
     (case scrape W url of
        Inr visible_text \<Rightarrow> visible_text
      | Inl (RequestException e) \<Rightarrow> str ''ERROR: Failed to scrape the page: '' @ e
      | Inl (OtherException e) \<Rightarrow>
          str ''ERROR: An unexpected error occurred during scraping: '' @ e)"

section \<open>\<open>clean_and_structure_text\<close>\<close>

definition max_tokens_input :: nat where
  "max_tokens_input = 120000"

definition exn_message :: "exn \<Rightarrow> pystr" where
  "exn_message e = (case e of NameError m \<Rightarrow> m | KeyError m \<Rightarrow> m | Raised m \<Rightarrow> m)"

text \<open>
  The result is \<open>Inl\<close> when an exception leaves the function, \<open>Inr\<close> when it returns.
  Only the chat call stands in a \<open>try\<close> that catches every exception; the lookup of
  \<open>GPT_DEPLOYMENT_NAME\<close> and the tokenizer calls stand outside it (of the tokenizer's
  exceptions only the \<open>KeyError\<close> of \<open>encoding_for_model\<close> is caught).
\<close>

definition clean_and_structure_text :: "world \<Rightarrow> pystr \<Rightarrow> exn + pystr" where
  "clean_and_structure_text W raw_text =
     (case load_global W ''GPT_DEPLOYMENT_NAME'' of
        Inl e \<Rightarrow> Inl e
      | Inr model_name \<Rightarrow>
          (case (case encoding_for_model W model_name of
                   Inl (KeyError k) \<Rightarrow> get_encoding W (str ''cl100k_base'')
                 | Inl e \<Rightarrow> Inl e
                 | Inr enc \<Rightarrow> Inr enc) of
             Inl e \<Rightarrow> Inl e
           | Inr enc \<Rightarrow>
               (let encoded_text = encode W enc raw_text;
                    truncated_text =
                      (if length encoded_text > max_tokens_input
                       then decode W enc (take max_tokens_input encoded_text)
                       else raw_text)
                in case chat W model_name truncated_text of
                     Inr content \<Rightarrow> Inr (strip content)
                   | Inl e \<Rightarrow> Inr (str ''ERROR: GPT processing failed: '' @ exn_message e))))"

section \<open>The handler of the Extract button\<close>

text \<open>The message shown for an input that does not start with \<open>http\<close>; its first
  character is the cross mark U+274C.\<close>

definition validation_message :: pystr where
  "validation_message =
     [0x274C] @ str '' Please enter a valid URL starting with http or https.''"

datatype call =
    Scrape pystr
  | Clean pystr
  | Save

text \<open>What one click does: the response (or the exception that leaves the handler before a
  response exists) and the calls made, in order: to the two functions above and, when the
  handler reaches its last line, to \<open>save_to_cosmos\<close>.  The page is fetched only inside
  \<open>extract_visible_text\<close>.\<close>

record outcome =
  response :: "exn + pystr"
  calls :: "call list"

definition on_extract :: "world \<Rightarrow> pystr \<Rightarrow> outcome" where
  "on_extract W user_input =
     (if \<not> startswith user_input (str ''http'') then
        \<lparr>response = Inr validation_message, calls = [Save]\<rparr>
      else
        (let raw = extract_visible_text W user_input
         in if startswith raw (str ''ERROR'') then
              \<lparr>response = Inr raw, calls = [Scrape user_input, Save]\<rparr>
            else
              (case clean_and_structure_text W raw of
                 Inl e \<Rightarrow> \<lparr>response = Inl e, calls = [Scrape user_input, Clean raw]\<rparr>
               | Inr r \<Rightarrow>
                   \<lparr>response = Inr r, calls = [Scrape user_input, Clean raw, Save]\<rparr>)))"

section \<open>The walk described by sections\<close>

text \<open>
  The non-empty texts of the text-bearing containers of a list of nodes, and the headings
  of the list, each with the texts of the containers that the walk visits after it and
  before the next heading.  The list is the one the walk runs over, so the nodes inside a
  heading come right after it and belong to its section.
\<close>

definition container_texts :: "node list \<Rightarrow> pystr list" where
  "container_texts ds =
     filter (\<lambda>s. s \<noteq> []) (map get_text_strip (filter is_container ds))"

fun sections :: "node list \<Rightarrow> (node \<times> pystr list) list" where
  "sections [] = []"
| "sections (n # ns) =
     (if is_heading n
      then (n, container_texts (takeWhile (\<lambda>m. \<not> is_heading m) ns)) # sections ns
      else sections ns)"

definition labelled_blocks :: "(int \<Rightarrow> pystr) \<Rightarrow> node list \<Rightarrow> pystr list" where
  "labelled_blocks T ds =
     map (\<lambda>(h, b). format_block T h b) (filter (\<lambda>(h, b). b \<noteq> []) (sections ds))"

definition unlabelled_block :: "node list \<Rightarrow> pystr list" where
  "unlabelled_block ds =
     (if list_ex is_heading ds \<or> container_texts ds = [] then []
      else [join nl (container_texts ds)])"

text \<open>
  The blocks as the spec words them.  What follows a heading is what stands after the
  heading element, not inside it: in the list of the walk, the nodes after the heading's
  own descendants, up to the next heading.  The title is the text of the heading
  (\<open>get_text()\<close>: the text nodes joined as they are), trimmed and in upper case.
\<close>

definition get_text :: "node \<Rightarrow> pystr" where
  "get_text e = concat (concat (map node_text (descendants e)))"

fun following_sections :: "node list \<Rightarrow> (node \<times> pystr list) list" where
  "following_sections [] = []"
| "following_sections (n # ns) =
     (if is_heading n
      then (n, container_texts
                 (takeWhile (\<lambda>m. \<not> is_heading m) (drop (length (descendants n)) ns)))
           # following_sections ns
      else following_sections ns)"

definition spec_blocks :: "(int \<Rightarrow> pystr) \<Rightarrow> node list \<Rightarrow> pystr list" where
  "spec_blocks T ds =
     map (\<lambda>(h, b). str ''=== '' @ upper T (strip (get_text h)) @ str '' ==='' @ nl
                      @ join (str '' '') b)
       (filter (\<lambda>(h, b). b \<noteq> []) (following_sections ds))"


section \<open>Places in a document\<close>

text \<open>
  A place in a document is given by the tags around it, from the innermost outwards, each
  with its name, its attributes and the siblings before and after it; \<open>plug\<close> puts a list
  of nodes at that place.
\<close>

type_synonym frame = "node list \<times> string \<times> (string \<times> pystr) list \<times> node list"

fun plug :: "frame list \<Rightarrow> node list \<Rightarrow> node list" where
  "plug [] ns = ns"
| "plug ((before, t, as, after) # fs) ns = plug fs (before @ Elem t as ns # after)"

section \<open>Example documents\<close>

text \<open>An upper-case table that leaves every character beyond ASCII as it is.\<close>

definition plain_table :: "int \<Rightarrow> pystr" where
  "plain_table c = [c]"

text \<open>The tree of
  \<^verbatim>\<open><body><h2>Overview</h2><p>Hello</p><p>World</p><a href="https://twitter.com/x">tw</a></body>\<close>.\<close>

definition overview_soup :: "node list" where
  "overview_soup =
     [Elem ''body'' []
        [Elem ''h2'' [] [Text (str ''Overview'')],
         Elem ''p'' [] [Text (str ''Hello'')],
         Elem ''p'' [] [Text (str ''World'')],
         Elem ''a'' [(''href'', str ''https://twitter.com/x'')] [Text (str ''tw'')]]]"

text \<open>The tree of \<^verbatim>\<open><body><p>Just text</p></body>\<close>.\<close>

definition just_text_soup :: "node list" where
  "just_text_soup = [Elem ''body'' [] [Elem ''p'' [] [Text (str ''Just text'')]]]"

text \<open>The tree of \<^verbatim>\<open><body><p>&nbsp;</p><p>one</p><li>two</li></body>\<close>; the first
  paragraph holds the no-break space U+00A0.\<close>

definition two_lines_body :: node where
  "two_lines_body =
     Elem ''body'' []
       [Elem ''p'' [] [Text [0xA0]],
        Elem ''p'' [] [Text (str ''one'')],
        Elem ''li'' [] [Text (str ''two'')]]"



text \<open>The \<open>nav\<close> element of
  \<^verbatim>\<open><html><body><p>kept</p><nav><p>menu</p><a href="https://facebook.com/m">f</a><script>s</script></nav></body></html>\<close>
  and the tree of that page.\<close>

definition menu_nav :: node where
  "menu_nav =
     Elem ''nav'' []
       [Elem ''p'' [] [Text (str ''menu'')],
        Elem ''a'' [(''href'', str ''https://facebook.com/m'')] [Text (str ''f'')],
        Elem ''script'' [] [Text (str ''s'')]]"

definition noisy_soup :: "node list" where
  "noisy_soup =
     [Elem ''html'' [] [Elem ''body'' [] [Elem ''p'' [] [Text (str ''kept'')], menu_nav]]]"









text \<open>The tree of
  \<^verbatim>\<open><body><p>intro</p><h1> First </h1><p>a</p><li>b</li><h2>Empty</h2><p>&nbsp;</p><h3>Last</h3><div>c</div></body>\<close>.\<close>

definition three_headings_body :: node where
  "three_headings_body =
     Elem ''body'' []
       [Elem ''p'' [] [Text (str ''intro'')],
        Elem ''h1'' [] [Text (str '' First '')],
        Elem ''p'' [] [Text (str ''a'')],
        Elem ''li'' [] [Text (str ''b'')],
        Elem ''h2'' [] [Text (str ''Empty'')],
        Elem ''p'' [] [Text [0xA0]],
        Elem ''h3'' [] [Text (str ''Last'')],
        Elem ''div'' [] [Text (str ''c'')]]"

definition three_headings_soup :: "node list" where
  "three_headings_soup = [three_headings_body]"

text \<open>The tree of \<^verbatim>\<open><body><h2><span>Title</span></h2><p> </p></body>\<close>.\<close>

definition title_span_body :: node where
  "title_span_body =
     Elem ''body'' []
       [Elem ''h2'' [] [Elem ''span'' [] [Text (str ''Title'')]],
        Elem ''p'' [] [Text (str '' '')]]"

text \<open>The tree of \<^verbatim>\<open><body><h1>Hello <b>World</b></h1><p>x</p></body>\<close>.\<close>

definition bold_heading_body :: node where
  "bold_heading_body =
     Elem ''body'' []
       [Elem ''h1'' [] [Text (str ''Hello ''), Elem ''b'' [] [Text (str ''World'')]],
        Elem ''p'' [] [Text (str ''x'')]]"

text \<open>A world whose page is empty, one whose fetch fails, and one that serves the overview
  page.\<close>

definition quiet_world :: world where
  "quiet_world =
     \<lparr>fetch = (\<lambda>u. Inr []), parse = (\<lambda>h. Inr []), getenv = (\<lambda>k. None),
      encoding_for_model = (\<lambda>m. Inl (KeyError [])), get_encoding = (\<lambda>n. Inr 0),
      encode = (\<lambda>e s. []), decode = (\<lambda>e ts. []), chat = (\<lambda>m s. Inr s),
      upper_table = plain_table\<rparr>"


definition overview_world :: world where
  "overview_world = quiet_world\<lparr>parse := (\<lambda>h. Inr overview_soup)\<rparr>"

section \<open>Auxiliary notions\<close>

text \<open>The block a heading contributes: none when its body is empty.\<close>

definition labelled_one :: "(int \<Rightarrow> pystr) \<Rightarrow> node \<Rightarrow> pystr list \<Rightarrow> pystr list" where
  "labelled_one T h b = (if b \<noteq> [] then [format_block T h b] else [])"


text \<open>A non-empty text with no whitespace at either end.\<close>

definition trimmed :: "pystr \<Rightarrow> bool" where
  "trimmed s = (s \<noteq> [] \<and> \<not> is_space (hd s) \<and> \<not> is_space (last s))"

section \<open>The loop and the sections\<close>


lemma container_texts_Nil [simp]: "container_texts [] = []"
  by (simp add: container_texts_def)

lemma container_texts_Cons:
  "container_texts (n # ns) =
     (if is_container n \<and> get_text_strip n \<noteq> [] then get_text_strip n # container_texts ns
      else container_texts ns)"
  by (simp add: container_texts_def)


lemma labelled_blocks_Nil [simp]: "labelled_blocks T [] = []"
  by (simp add: labelled_blocks_def)

lemma labelled_blocks_Cons:
  "labelled_blocks T (n # ns) =
     (if is_heading n
      then labelled_one T n (container_texts (takeWhile (\<lambda>m. \<not> is_heading m) ns)) @ labelled_blocks T ns
      else labelled_blocks T ns)"
  by (simp add: labelled_blocks_def labelled_one_def)

lemma finish_under_heading:
  "current_heading w = Some h \<Longrightarrow>
   finish T (foldl (visit T) w ds) =
     content_blocks w
     @ labelled_one T h (block w @ container_texts (takeWhile (\<lambda>m. \<not> is_heading m) ds))
     @ labelled_blocks T ds"
proof (induction ds arbitrary: w h)
  case Nil
  then show ?case by (simp add: finish_def labelled_one_def)
next
  case (Cons n ns)
  show ?case
  proof (cases "is_heading n")
    case True
    let ?w' = "visit T w n"
    have ch: "current_heading ?w' = Some n" using True by (simp add: visit_def)
    have cb: "content_blocks ?w' = content_blocks w @ labelled_one T h (block w)"
      using True Cons.prems by (simp add: visit_def labelled_one_def)
    have bl: "block ?w' = []" using True by (simp add: visit_def)
    show ?thesis
      using Cons.IH [OF ch] True by (simp add: cb bl labelled_blocks_Cons)
  next
    case False
    let ?w' = "visit T w n"
    have ch: "current_heading ?w' = Some h"
      using False Cons.prems by (simp add: visit_def Let_def)
    have cb: "content_blocks ?w' = content_blocks w"
      using False by (simp add: visit_def Let_def)
    have bl: "block ?w' = block w @ container_texts [n]"
      using False by (simp add: visit_def Let_def container_texts_Cons)
    have ct: "container_texts (n # takeWhile (\<lambda>m. \<not> is_heading m) ns)
        = container_texts [n] @ container_texts (takeWhile (\<lambda>m. \<not> is_heading m) ns)"
      by (simp add: container_texts_Cons)
    have "finish T (foldl (visit T) w (n # ns)) = finish T (foldl (visit T) ?w' ns)" by simp
    also have "\<dots> = content_blocks w
        @ labelled_one T h ((block w @ container_texts [n])
             @ container_texts (takeWhile (\<lambda>m. \<not> is_heading m) ns))
        @ labelled_blocks T ns"
      using Cons.IH [OF ch] by (simp only: cb bl)
    also have "\<dots> = content_blocks w
        @ labelled_one T h (block w @ container_texts (takeWhile (\<lambda>m. \<not> is_heading m) (n # ns)))
        @ labelled_blocks T (n # ns)"
      using False by (simp add: ct labelled_blocks_Cons)
    finally show ?thesis .
  qed
qed

lemma finish_before_heading:
  "current_heading w = None \<Longrightarrow> content_blocks w = [] \<Longrightarrow>
   finish T (foldl (visit T) w ds) =
     (if list_ex is_heading ds then labelled_blocks T ds
      else if block w @ container_texts ds \<noteq> []
           then [strip (join nl (block w @ container_texts ds))] else [])"
proof (induction ds arbitrary: w)
  case Nil
  then show ?case by (simp add: finish_def)
next
  case (Cons n ns)
  show ?case
  proof (cases "is_heading n")
    case True
    let ?w' = "visit T w n"
    have ch: "current_heading ?w' = Some n" using True by (simp add: visit_def)
    have cb: "content_blocks ?w' = []"
      using True Cons.prems by (simp add: visit_def)
    have bl: "block ?w' = []" using True by (simp add: visit_def)
    show ?thesis
      using finish_under_heading [OF ch, of T ns] True by (simp add: cb bl labelled_blocks_Cons)
  next
    case False
    let ?w' = "visit T w n"
    have ch: "current_heading ?w' = None"
      using False Cons.prems by (simp add: visit_def Let_def)
    have cb: "content_blocks ?w' = []"
      using False Cons.prems by (simp add: visit_def Let_def)
    have bl: "block ?w' = block w @ container_texts [n]"
      using False by (simp add: visit_def Let_def container_texts_Cons)
    have ct: "container_texts (n # ns) = container_texts [n] @ container_texts ns"
      by (simp add: container_texts_Cons)
    have "finish T (foldl (visit T) w (n # ns)) = finish T (foldl (visit T) ?w' ns)" by simp
    also have "\<dots> = (if list_ex is_heading ns then labelled_blocks T ns
      else if (block w @ container_texts [n]) @ container_texts ns \<noteq> []
           then [strip (join nl ((block w @ container_texts [n]) @ container_texts ns))] else [])"
      using Cons.IH [OF ch cb] by (simp only: bl)
    also have "\<dots> = (if list_ex is_heading (n # ns) then labelled_blocks T (n # ns)
      else if block w @ container_texts (n # ns) \<noteq> []
           then [strip (join nl (block w @ container_texts (n # ns)))] else [])"
      using False by (simp add: ct labelled_blocks_Cons)
    finally show ?thesis .
  qed
qed

section \<open>Trimmed texts\<close>

lemma lstrip_hd: "lstrip s \<noteq> [] \<Longrightarrow> \<not> is_space (hd (lstrip s))"
  unfolding lstrip_def by (metis hd_dropWhile)

lemma rstrip_last: "rstrip s \<noteq> [] \<Longrightarrow> \<not> is_space (last (rstrip s))"
  unfolding rstrip_def by (metis hd_dropWhile last_rev rev_is_Nil_conv)

lemma rstrip_hd: "rstrip s \<noteq> [] \<Longrightarrow> hd (rstrip s) = hd s"
proof -
  assume ne: "rstrip s \<noteq> []"
  have "rev s = takeWhile is_space (rev s) @ dropWhile is_space (rev s)" by simp
  then have "s = rstrip s @ rev (takeWhile is_space (rev s))"
    unfolding rstrip_def by (metis rev_append rev_rev_ident)
  then show ?thesis using ne by (metis hd_append2)
qed

lemma strip_trimmed: "strip s \<noteq> [] \<Longrightarrow> trimmed (strip s)"
  unfolding strip_def trimmed_def
  by (metis lstrip_hd rstrip_hd rstrip_last rstrip_def dropWhile.simps(1) rev.simps(1))

lemma lstrip_id: "s \<noteq> [] \<Longrightarrow> \<not> is_space (hd s) \<Longrightarrow> lstrip s = s"
  unfolding lstrip_def by (cases s) auto

lemma rstrip_id: "s \<noteq> [] \<Longrightarrow> \<not> is_space (last s) \<Longrightarrow> rstrip s = s"
  unfolding rstrip_def by (cases "rev s") (auto simp: last_rev [symmetric])

lemma strip_id: "trimmed s \<Longrightarrow> strip s = s"
  by (simp add: trimmed_def strip_def lstrip_id rstrip_id)

lemma concat_trimmed:
  "xs \<noteq> [] \<Longrightarrow> \<forall>x \<in> set xs. trimmed x \<Longrightarrow> trimmed (concat xs)"
proof (induction xs)
  case Nil then show ?case by simp
next
  case (Cons x xs)
  show ?case
  proof (cases "xs = []")
    case True with Cons.prems show ?thesis by simp
  next
    case False
    with Cons have "trimmed (concat xs)" "trimmed x" by simp_all
    then show ?thesis by (simp add: trimmed_def)
  qed
qed

lemma get_text_strip_trimmed: "get_text_strip e \<noteq> [] \<Longrightarrow> trimmed (get_text_strip e)"
proof -
  let ?ps = "filter (\<lambda>s. s \<noteq> []) (map strip (concat (map node_text (descendants e))))"
  assume "get_text_strip e \<noteq> []"
  then have ne: "?ps \<noteq> []" unfolding get_text_strip_def by (metis concat.simps(1))
  have "\<forall>x \<in> set ?ps. trimmed x" by (auto intro: strip_trimmed)
  with ne have "trimmed (concat ?ps)" by (rule concat_trimmed)
  then show ?thesis by (simp add: get_text_strip_def)
qed

lemma join_trimmed:
  "xs \<noteq> [] \<Longrightarrow> \<forall>x \<in> set xs. trimmed x \<Longrightarrow> trimmed (join sep xs)"
proof (induction sep xs rule: join.induct)
  case (3 sep x y ys)
  then have "trimmed (join sep (y # ys))" "trimmed x" by simp_all
  then show ?case by (simp add: trimmed_def)
qed simp_all

lemma container_texts_trimmed: "\<forall>x \<in> set (container_texts ds). trimmed x"
  by (auto simp: container_texts_def intro: get_text_strip_trimmed)

lemma strip_join_container_texts:
  "container_texts ds \<noteq> [] \<Longrightarrow> strip (join sep (container_texts ds)) = join sep (container_texts ds)"
  by (simp add: strip_id join_trimmed container_texts_trimmed)

section \<open>The document in terms of the sections\<close>

lemma labelled_blocks_no_heading: "\<not> list_ex is_heading ds \<Longrightarrow> labelled_blocks T ds = []"
  by (induction ds) (simp_all add: labelled_blocks_Cons)

lemma finish_walk: "finish T (walk T ds) = labelled_blocks T ds @ unlabelled_block ds"
proof -
  have "finish T (walk T ds) =
     (if list_ex is_heading ds then labelled_blocks T ds
      else if container_texts ds \<noteq> [] then [strip (join nl (container_texts ds))] else [])"
    unfolding walk_def using finish_before_heading [of walk_init T ds]
    by (simp add: walk_init_def)
  then show ?thesis
    by (simp add: unlabelled_block_def labelled_blocks_no_heading strip_join_container_texts)
qed

lemma format_block_explicit:
  "b = container_texts ns \<Longrightarrow> b \<noteq> [] \<Longrightarrow>
   format_block T h b = str ''=== '' @ upper T (get_text_strip h) @ str '' ==='' @ nl @ join (str '' '') b"
  by (simp add: format_block_def strip_join_container_texts)

lemma sections_bodies:
  "(h, b) \<in> set (sections ds) \<Longrightarrow> \<exists>ns. b = container_texts ns"
  by (induction ds) (auto split: if_splits)

lemma labelled_blocks_explicit:
  "labelled_blocks T ds =
     map (\<lambda>(h, b). str ''=== '' @ upper T (get_text_strip h) @ str '' ==='' @ nl @ join (str '' '') b)
       (filter (\<lambda>(h, b). b \<noteq> []) (sections ds))"
  unfolding labelled_blocks_def
  by (rule map_cong) (auto dest: sections_bodies simp: format_block_explicit)

lemma labelled_blocks_nonempty: "x \<in> set (labelled_blocks T ds) \<Longrightarrow> x \<noteq> []"
  by (auto simp: labelled_blocks_def format_block_def str_def)

lemma unlabelled_block_nonempty: "x \<in> set (unlabelled_block ds) \<Longrightarrow> x \<noteq> []"
  using join_trimmed [OF _ container_texts_trimmed, of ds nl]
  by (auto simp: unlabelled_block_def trimmed_def split: if_splits)

lemma links_block_nonempty: "x \<in> set (links_block ls) \<Longrightarrow> x \<noteq> []"
  by (auto simp: links_block_def str_def split: if_splits)

lemma document_of_body:
  "body (decompose_unwanted soup) = Some bd \<Longrightarrow>
   structured_document T soup =
     Inr (join (nl @ nl)
            (labelled_blocks T (descendants bd) @ unlabelled_block (descendants bd)
             @ links_block (social_links (decompose_unwanted soup))))"
proof -
  assume b: "body (decompose_unwanted soup) = Some bd"
  let ?bs = "labelled_blocks T (descendants bd) @ unlabelled_block (descendants bd)
             @ links_block (social_links (decompose_unwanted soup))"
  have "\<forall>x \<in> set ?bs. x \<noteq> []"
    by (auto dest: labelled_blocks_nonempty unlabelled_block_nonempty links_block_nonempty)
  then have "filter (\<lambda>s. s \<noteq> []) ?bs = ?bs" by (simp only: filter_id_conv) 
  then show ?thesis
    using b by (simp add: structured_document_def Let_def finish_walk)
qed




section \<open>Prefixes\<close>




section \<open>What the noise filter leaves\<close>

lemma unwanted_decompose_in: "unwanted (decompose_in n) = unwanted n"
  by (cases n) simp_all

lemma decompose_idem:
  "decompose_unwanted (decompose_unwanted ns) = decompose_unwanted ns"
  "\<not> unwanted n \<Longrightarrow> decompose_in (decompose_in n) = decompose_in n"
proof (induction ns and n rule: decompose_unwanted_decompose_in.induct)
  case (2 n ns)
  then show ?case by (simp add: unwanted_decompose_in)
qed simp_all


lemma doc_descendants_Nil: "doc_descendants [] = []"
  by (simp add: doc_descendants_def)

lemma doc_descendants_Cons: "doc_descendants (n # ns) = n # descendants n @ doc_descendants ns"
  by (simp add: doc_descendants_def)

lemma descendants_Elem: "descendants (Elem t as cs) = doc_descendants cs"
  by (simp add: doc_descendants_def)



lemma decompose_clean:
  "\<forall>m \<in> set (doc_descendants (decompose_unwanted ns)). \<not> unwanted m"
  "\<forall>m \<in> set (descendants (decompose_in n)). \<not> unwanted m"
proof (induction ns and n rule: decompose_unwanted_decompose_in.induct)
  case (2 n ns)
  show ?case
  proof (cases "unwanted n")
    case True
    with "2.IH"(1) show ?thesis by simp
  next
    case False
    from "2.IH"(2) [OF False] "2.IH"(3) [OF False] False
    show ?thesis
      by (simp only: decompose_unwanted.simps if_False doc_descendants_Cons set_simps
            set_append ball_Un ball_simps unwanted_decompose_in simp_thms)
  qed
next
  case (3 t as cs)
  then show ?case by (simp only: decompose_in.simps descendants_Elem)
qed (simp_all add: doc_descendants_Nil)

lemma decompose_nothing:
  "(\<forall>m \<in> set (doc_descendants ns). \<not> unwanted m) \<Longrightarrow> decompose_unwanted ns = ns"
  "(\<forall>m \<in> set (descendants n). \<not> unwanted m) \<Longrightarrow> decompose_in n = n"
proof (induction ns and n rule: decompose_unwanted_decompose_in.induct)
  case (2 n ns)
  from "2.prems" have "\<not> unwanted n \<and> (\<forall>m \<in> set (descendants n). \<not> unwanted m)
      \<and> (\<forall>m \<in> set (doc_descendants ns). \<not> unwanted m)"
    by (simp only: doc_descendants_Cons set_simps set_append ball_Un ball_simps) blast
  then have n: "\<not> unwanted n"
    and dn: "\<forall>m \<in> set (descendants n). \<not> unwanted m"
    and dns: "\<forall>m \<in> set (doc_descendants ns). \<not> unwanted m"
    by blast+
  from "2.IH"(2) [OF n dn] "2.IH"(3) [OF n dns] n
  show ?case by (simp only: decompose_unwanted.simps if_False)
next
  case (3 t as cs)
  from "3.prems" have "\<forall>m \<in> set (doc_descendants cs). \<not> unwanted m"
    by (simp only: descendants_Elem)
  from "3.IH" [OF this] show ?case by (simp only: decompose_in.simps)
qed simp_all

lemma decompose_unwanted_append:
  "decompose_unwanted (xs @ ys) = decompose_unwanted xs @ decompose_unwanted ys"
  by (induction xs) simp_all

lemma decompose_unwanted_drop:
  "unwanted u \<Longrightarrow> decompose_unwanted (pre @ u # post) = decompose_unwanted (pre @ post)"
  by (simp add: decompose_unwanted_append)

lemma decompose_unwanted_drop_inside:
  "unwanted u \<Longrightarrow>
   decompose_unwanted (before @ Elem t as (pre @ u # post) # after)
     = decompose_unwanted (before @ Elem t as (pre @ post) # after)"
  by (simp add: decompose_unwanted_append)

lemma decompose_unwanted_plug:
  "decompose_unwanted xs = decompose_unwanted ys \<Longrightarrow>
   decompose_unwanted (plug fs xs) = decompose_unwanted (plug fs ys)"
proof (induction fs arbitrary: xs ys)
  case Nil
  then show ?case by simp
next
  case (Cons f fs)
  obtain before t as after where f: "f = (before, t, as, after)" by (cases f)
  have "decompose_unwanted (before @ Elem t as xs # after)
      = decompose_unwanted (before @ Elem t as ys # after)"
    using Cons.prems by (simp add: decompose_unwanted_append)
  from Cons.IH [OF this] show ?case by (simp add: f)
qed

section \<open>Containers inside containers\<close>









section \<open>The worked example\<close>

text \<open>
  Claim C2.  For the page
  \<^verbatim>\<open><body><h2>Overview</h2><p>Hello</p><p>World</p><a href="https://twitter.com/x">tw</a></body>\<close>
  the extraction produces exactly the heading block \<open>=== OVERVIEW ===\<close> with the body
  \<open>Hello World\<close>, a blank line, and the block \<open>=== SOCIAL MEDIA LINKS ===\<close> with the one
  link \<open>https://twitter.com/x\<close>, whatever the upper-case table does beyond ASCII; and this
  is what \<open>extract_visible_text\<close> returns for any URL in a world that serves that page.
\<close>

theorem overview_example:
  "structured_document T overview_soup =
     Inr (str ''=== OVERVIEW ==='' @ nl @ str ''Hello World'' @ nl @ nl
          @ str ''=== SOCIAL MEDIA LINKS ==='' @ nl @ str ''https://twitter.com/x'')
   \<and> extract_visible_text overview_world url =
     str ''=== OVERVIEW ==='' @ nl @ str ''Hello World'' @ nl @ nl
          @ str ''=== SOCIAL MEDIA LINKS ==='' @ nl @ str ''https://twitter.com/x''"
proof -
  have doc: "structured_document T overview_soup =
     Inr (str ''=== OVERVIEW ==='' @ nl @ str ''Hello World'' @ nl @ nl
          @ str ''=== SOCIAL MEDIA LINKS ==='' @ nl @ str ''https://twitter.com/x'')" for T
    by code_simp
  then show ?thesis
    by (simp add: extract_visible_text_def scrape_def overview_world_def quiet_world_def)
qed

section \<open>Heading-labelled blocks\<close>

text \<open>
  Claim C1, as amended.  The blocks the walk produces are, in document order, one block
  for every heading (h1 to h6) after which, before the next heading, the walk visits at
  least one text-bearing container with non-empty text, and no block for a heading after
  which it visits none.  The nodes inside the heading itself are visited right after it and
  count.  The title of a block is the text of its heading as \<open>get_text(strip=True)\<close> gives
  it (every text node trimmed, the empty ones dropped, the rest joined without a
  separator), in upper case; its body is the texts of those containers joined by spaces.
  When the walk meets no heading, the only block is the unlabelled one.  The document is
  these blocks, then the social links block, joined by blank lines.
\<close>

theorem heading_blocks:
  "finish T (walk T ds) =
     map (\<lambda>(h, b). str ''=== '' @ upper T (get_text_strip h) @ str '' ==='' @ nl
                      @ join (str '' '') b)
       (filter (\<lambda>(h, b). b \<noteq> []) (sections ds))
     @ unlabelled_block ds
   \<and> (body (decompose_unwanted soup) = Some bd \<longrightarrow>
        structured_document T soup =
          Inr (join (nl @ nl)
                 (map (\<lambda>(h, b). str ''=== '' @ upper T (get_text_strip h) @ str '' ==='' @ nl
                                  @ join (str '' '') b)
                    (filter (\<lambda>(h, b). b \<noteq> []) (sections (descendants bd)))
                  @ unlabelled_block (descendants bd)
                  @ links_block (social_links (decompose_unwanted soup)))))"
  using finish_walk [of T ds] document_of_body [of soup bd T]
  by (simp add: labelled_blocks_explicit)

theorem heading_blocks_witness:
  "body (decompose_unwanted three_headings_soup) = Some three_headings_body
   \<and> map fst (filter (\<lambda>(h, b). b \<noteq> []) (sections (descendants three_headings_body)))
       = [Elem ''h1'' [] [Text (str '' First '')], Elem ''h3'' [] [Text (str ''Last'')]]
   \<and> structured_document plain_table three_headings_soup =
       Inr (str ''=== FIRST ==='' @ nl @ str ''a b'' @ nl @ nl
            @ str ''=== LAST ==='' @ nl @ str ''c'')"
proof -
  have b: "body (decompose_unwanted three_headings_soup) = Some three_headings_body"
    by code_simp
  have s: "map fst (filter (\<lambda>(h, b). b \<noteq> []) (sections (descendants three_headings_body)))
       = [Elem ''h1'' [] [Text (str '' First '')], Elem ''h3'' [] [Text (str ''Last'')]]"
    by code_simp
  have v: "join (nl @ nl)
             (map (\<lambda>(h, b). str ''=== '' @ upper plain_table (get_text_strip h) @ str '' ===''
                              @ nl @ join (str '' '') b)
                (filter (\<lambda>(h, b). b \<noteq> []) (sections (descendants three_headings_body)))
              @ unlabelled_block (descendants three_headings_body)
              @ links_block (social_links (decompose_unwanted three_headings_soup)))
      = str ''=== FIRST ==='' @ nl @ str ''a b'' @ nl @ nl @ str ''=== LAST ==='' @ nl @ str ''c''"
    by code_simp
  from heading_blocks [of plain_table "descendants three_headings_body" three_headings_soup
      three_headings_body] b
  have "structured_document plain_table three_headings_soup =
          Inr (join (nl @ nl)
             (map (\<lambda>(h, b). str ''=== '' @ upper plain_table (get_text_strip h) @ str '' ===''
                              @ nl @ join (str '' '') b)
                (filter (\<lambda>(h, b). b \<noteq> []) (sections (descendants three_headings_body)))
              @ unlabelled_block (descendants three_headings_body)
              @ links_block (social_links (decompose_unwanted three_headings_soup))))"
    by blast
  with b s v show ?thesis by (simp only: simp_thms)
qed

text \<open>
  Claim C1, as stated, counts what follows the heading element and takes the trimmed text
  of the heading as the title.  For \<^verbatim>\<open><body><h2><span>Title</span></h2><p> </p></body>\<close>
  only a whitespace paragraph follows the heading, so the claim gives no block; the walk
  visits the \<open>span\<close> inside the heading after it and emits the block headed
  \<open>=== TITLE ===\<close>.  For \<^verbatim>\<open><body><h1>Hello <b>World</b></h1><p>x</p></body>\<close> the trimmed
  text of the heading is \<open>Hello World\<close>; the title of the block is \<open>HELLOWORLD\<close>.
\<close>

theorem heading_followers_counterexample:
  "spec_blocks plain_table (descendants title_span_body) = []
   \<and> finish plain_table (walk plain_table (descendants title_span_body))
       = [str ''=== TITLE ==='' @ nl @ str ''Title'']
   \<and> structured_document plain_table [title_span_body]
       = Inr (str ''=== TITLE ==='' @ nl @ str ''Title'')
   \<and> spec_blocks plain_table (descendants bold_heading_body)
       = [str ''=== HELLO WORLD ==='' @ nl @ str ''x'']
   \<and> finish plain_table (walk plain_table (descendants bold_heading_body))
       = [str ''=== HELLOWORLD ==='' @ nl @ str ''x'']
   \<and> structured_document plain_table [bold_heading_body]
       = Inr (str ''=== HELLOWORLD ==='' @ nl @ str ''x'')"
proof -
  have "spec_blocks plain_table (descendants title_span_body) = []" by code_simp
  moreover have "finish plain_table (walk plain_table (descendants title_span_body))
       = [str ''=== TITLE ==='' @ nl @ str ''Title'']" by code_simp
  moreover have "structured_document plain_table [title_span_body]
       = Inr (str ''=== TITLE ==='' @ nl @ str ''Title'')" by code_simp
  moreover have "spec_blocks plain_table (descendants bold_heading_body)
       = [str ''=== HELLO WORLD ==='' @ nl @ str ''x'']" by code_simp
  moreover have "finish plain_table (walk plain_table (descendants bold_heading_body))
       = [str ''=== HELLOWORLD ==='' @ nl @ str ''x'']" by code_simp
  moreover have "structured_document plain_table [bold_heading_body]
       = Inr (str ''=== HELLOWORLD ==='' @ nl @ str ''x'')" by code_simp
  ultimately show ?thesis by (simp only: simp_thms)
qed

section \<open>Text without a heading\<close>

text \<open>
  Claim C5.  When the body holds no heading and some text-bearing container has non-empty
  text, the walk produces a single block without a title line: the texts of the containers
  joined by newlines (the bodies of heading blocks are joined by spaces).  The document is
  that block, followed by the social links block when there are links.  For
  \<^verbatim>\<open><body><p>Just text</p></body>\<close> the document is exactly \<open>Just text\<close>.
\<close>

theorem unlabelled_residue:
  "(\<not> list_ex is_heading ds \<and> container_texts ds \<noteq> [] \<longrightarrow>
      finish T (walk T ds) = [join nl (container_texts ds)])
   \<and> (body (decompose_unwanted soup) = Some bd \<and> \<not> list_ex is_heading (descendants bd)
        \<and> container_texts (descendants bd) \<noteq> [] \<longrightarrow>
      structured_document T soup =
        Inr (join (nl @ nl)
               (join nl (container_texts (descendants bd))
                # links_block (social_links (decompose_unwanted soup)))))
   \<and> structured_document T just_text_soup = Inr (str ''Just text'')"
proof -
  have "structured_document T just_text_soup = Inr (str ''Just text'')" by code_simp
  then show ?thesis
    using finish_walk [of T ds] document_of_body [of soup bd T]
    by (simp add: labelled_blocks_no_heading unlabelled_block_def)
qed

theorem unlabelled_residue_witness:
  "\<not> list_ex is_heading (descendants two_lines_body)
   \<and> container_texts (descendants two_lines_body) = [str ''one'', str ''two'']
   \<and> body (decompose_unwanted [two_lines_body]) = Some two_lines_body
   \<and> structured_document plain_table [two_lines_body] = Inr (str ''one'' @ nl @ str ''two'')"
proof -
  have h: "\<not> list_ex is_heading (descendants two_lines_body)" by code_simp
  have c: "container_texts (descendants two_lines_body) = [str ''one'', str ''two'']"
    by code_simp
  then have ne: "container_texts (descendants two_lines_body) \<noteq> []" by simp
  have b: "body (decompose_unwanted [two_lines_body]) = Some two_lines_body" by code_simp
  have v: "join (nl @ nl) (join nl (container_texts (descendants two_lines_body))
             # links_block (social_links (decompose_unwanted [two_lines_body])))
      = str ''one'' @ nl @ str ''two''"
    by code_simp
  from unlabelled_residue [of "descendants two_lines_body" plain_table "[two_lines_body]"
      two_lines_body] h ne b
  have "structured_document plain_table [two_lines_body] =
        Inr (join (nl @ nl) (join nl (container_texts (descendants two_lines_body))
                # links_block (social_links (decompose_unwanted [two_lines_body]))))"
    by blast
  with h c b v show ?thesis by (simp only: simp_thms)
qed

section \<open>A heading without text\<close>



section \<open>Failures of the scrape\<close>



section \<open>The cleaning step\<close>

text \<open>
  Claim C8.  The claim says that every failure inside \<open>clean_and_structure_text\<close> comes
  back as a string that starts with \<open>ERROR:\<close>.  The function reads the global
  \<open>GPT_DEPLOYMENT_NAME\<close> in its first statement, outside every \<open>try\<close>; the module
  binds no such name (the configuration is called \<open>AZURE_OPENAI_CHAT_DEPLOYMENT\<close>), so
  every call raises \<open>NameError\<close> and the exception leaves the function, and the handler of
  the button with it.  The theorem evaluates the function as it is written.
\<close>

theorem cleaning_raises:
  "clean_and_structure_text W raw_text
     = Inl (NameError (name_error_message ''GPT_DEPLOYMENT_NAME''))
   \<and> on_extract overview_world (str ''http://example.com'')
     = \<lparr>response = Inl (NameError (name_error_message ''GPT_DEPLOYMENT_NAME'')),
        calls = [Scrape (str ''http://example.com''),
                 Clean (str ''=== OVERVIEW ==='' @ nl @ str ''Hello World'' @ nl @ nl
                        @ str ''=== SOCIAL MEDIA LINKS ==='' @ nl @ str ''https://twitter.com/x'')]\<rparr>"
proof -
  have lookup: "load_global W ''GPT_DEPLOYMENT_NAME''
      = Inl (NameError (name_error_message ''GPT_DEPLOYMENT_NAME''))" for W
    by (simp add: load_global_def module_globals_def)
  then have raises: "clean_and_structure_text W raw_text
      = Inl (NameError (name_error_message ''GPT_DEPLOYMENT_NAME''))" for W raw_text
    by (simp add: clean_and_structure_text_def)
  have doc: "structured_document plain_table overview_soup =
     Inr (str ''=== OVERVIEW ==='' @ nl @ str ''Hello World'' @ nl @ nl
          @ str ''=== SOCIAL MEDIA LINKS ==='' @ nl @ str ''https://twitter.com/x'')"
    by code_simp
  then have raw: "extract_visible_text overview_world (str ''http://example.com'')
     = str ''=== OVERVIEW ==='' @ nl @ str ''Hello World'' @ nl @ nl
          @ str ''=== SOCIAL MEDIA LINKS ==='' @ nl @ str ''https://twitter.com/x''"
    by (simp add: extract_visible_text_def scrape_def overview_world_def quiet_world_def)
  have "on_extract overview_world (str ''http://example.com'')
     = \<lparr>response = Inl (NameError (name_error_message ''GPT_DEPLOYMENT_NAME'')),
        calls = [Scrape (str ''http://example.com''),
                 Clean (str ''=== OVERVIEW ==='' @ nl @ str ''Hello World'' @ nl @ nl
                        @ str ''=== SOCIAL MEDIA LINKS ==='' @ nl @ str ''https://twitter.com/x'')]\<rparr>"
  proof -
    have h: "startswith (str ''http://example.com'') (str ''http'')" by code_simp
    have e: "\<not> startswith (str ''=== OVERVIEW ==='' @ nl @ str ''Hello World'' @ nl @ nl
          @ str ''=== SOCIAL MEDIA LINKS ==='' @ nl @ str ''https://twitter.com/x'') (str ''ERROR'')"
      by code_simp
    show ?thesis
      unfolding on_extract_def raw raises using h e by (simp add: Let_def)
  qed
  with raises show ?thesis by blast
qed

section \<open>Validation of the input\<close>

text \<open>
  Claim C9.  An input that does not start with \<open>http\<close> (and so with neither \<open>http\<close>
  nor \<open>https\<close>) is answered with the validation message, and the only call the handler
  makes is the save of the chat: \<open>extract_visible_text\<close>, the only place that fetches a
  page, is not invoked.  \<open>ftp://example.com\<close> is such an input.
\<close>

theorem invalid_url_rejected:
  "(\<not> (startswith user_input (str ''http'') \<or> startswith user_input (str ''https'')) \<longrightarrow>
      on_extract W user_input = \<lparr>response = Inr validation_message, calls = [Save]\<rparr>)
   \<and> on_extract W (str ''ftp://example.com'') = \<lparr>response = Inr validation_message, calls = [Save]\<rparr>"
proof -
  have "\<not> startswith (str ''ftp://example.com'') (str ''http'')" by code_simp
  then show ?thesis by (simp add: on_extract_def)
qed

theorem invalid_url_rejected_witness:
  "\<not> (startswith (str ''example.com'') (str ''http'') \<or> startswith (str ''example.com'') (str ''https''))
   \<and> on_extract overview_world (str ''example.com'')
      = \<lparr>response = Inr validation_message, calls = [Save]\<rparr>"
proof -
  have h: "\<not> (startswith (str ''example.com'') (str ''http'') \<or> startswith (str ''example.com'') (str ''https''))"
    by code_simp
  from invalid_url_rejected [of "str ''example.com''" overview_world] h
  show ?thesis by blast
qed

section \<open>Noise subtrees\<close>

text \<open>
  Claim C3.  Before the links are collected and before the walk, every tag on the list
  (script, style, header, footer, nav, form, noscript, svg, aside, dialog, iframe) is taken
  out with all that stands below it: no such tag is left in the tree the rest of the
  function reads, a tree without such tags is left as it is, and the document is the
  document of the filtered tree.  So what stands inside such a tag, text or anchors,
  contributes nothing: a page with such an element at any place, at any depth, has the same
  document as the page without the element.
\<close>

theorem noise_contributes_nothing:
  "(\<forall>m \<in> set (doc_descendants (decompose_unwanted soup)). \<not> unwanted m)
   \<and> structured_document T soup = structured_document T (decompose_unwanted soup)
   \<and> ((\<forall>m \<in> set (doc_descendants soup). \<not> unwanted m) \<longrightarrow> decompose_unwanted soup = soup)
   \<and> (unwanted u \<longrightarrow>
        structured_document T (plug fs (pre @ u # post))
          = structured_document T (plug fs (pre @ post)))"
proof -
  have "structured_document T soup = structured_document T (decompose_unwanted soup)"
    by (simp only: structured_document_def decompose_idem(1))
  moreover have "unwanted u \<longrightarrow>
        structured_document T (plug fs (pre @ u # post))
          = structured_document T (plug fs (pre @ post))"
  proof
    assume u: "unwanted u"
    have "decompose_unwanted (plug fs (pre @ u # post)) = decompose_unwanted (plug fs (pre @ post))"
      by (rule decompose_unwanted_plug) (rule decompose_unwanted_drop [OF u])
    then show "structured_document T (plug fs (pre @ u # post))
          = structured_document T (plug fs (pre @ post))"
      by (simp only: structured_document_def)
  qed
  ultimately show ?thesis
    using decompose_clean(1) [of soup] decompose_nothing(1) [of soup] by blast
qed

theorem noise_contributes_nothing_witness:
  "list_all (\<lambda>m. \<not> unwanted m) (doc_descendants just_text_soup)
   \<and> decompose_unwanted just_text_soup = just_text_soup
   \<and> unwanted menu_nav
   \<and> noisy_soup = plug [([], ''body'', [], []), ([], ''html'', [], [])]
                      ([Elem ''p'' [] [Text (str ''kept'')]] @ menu_nav # [])
   \<and> structured_document plain_table noisy_soup = Inr (str ''kept'')"
proof -
  let ?fs = "[([], ''body'', [], []), ([], ''html'', [], [])]"
  let ?pre = "[Elem ''p'' [] [Text (str ''kept'')]]"
  have l: "list_all (\<lambda>m. \<not> unwanted m) (doc_descendants just_text_soup)" by code_simp
  then have c: "\<forall>m \<in> set (doc_descendants just_text_soup). \<not> unwanted m"
    by (simp only: list_all_iff)
  have u: "unwanted menu_nav" by code_simp
  have n: "noisy_soup = plug ?fs (?pre @ menu_nav # [])"
    by (simp add: noisy_soup_def)
  have v: "structured_document plain_table (plug ?fs (?pre @ [])) = Inr (str ''kept'')"
    by code_simp
  from noise_contributes_nothing [of just_text_soup plain_table menu_nav ?fs ?pre "[]"] c u
  have "decompose_unwanted just_text_soup = just_text_soup"
    and "structured_document plain_table (plug ?fs (?pre @ menu_nav # []))
      = structured_document plain_table (plug ?fs (?pre @ []))"
    by blast+
  with l u n v show ?thesis by (simp only: simp_thms)
qed

section \<open>Social links\<close>




section \<open>Nested containers\<close>




end
